theory Spec2Isabelle
  imports Complex_Main
begin

section \<open>Values exchanged by the handler\<close>

text \<open>
  \<^verbatim>\<open>backend/app.py\<close> is one Flask handler, \<^verbatim>\<open>submit_app\<close>, and one helper,
  \<^verbatim>\<open>validate_format\<close>. The handler works on whatever \<^verbatim>\<open>request.get_json()\<close> returns,
  which is an arbitrary JSON value as Python's \<^verbatim>\<open>json\<close> module builds it: \<^verbatim>\<open>None\<close>, a
  \<^verbatim>\<open>bool\<close>, an \<^verbatim>\<open>int\<close>, a \<^verbatim>\<open>float\<close>, a \<^verbatim>\<open>str\<close>, a \<^verbatim>\<open>list\<close> or a \<^verbatim>\<open>dict\<close>.

  Strings are lists of 8-bit characters, read as the code points below 256. On this
  range Python's \<^verbatim>\<open>\d\<close> is \<^verbatim>\<open>[0-9]\<close>; strings with code points from 256 on (where
  \<^verbatim>\<open>\d\<close> and \<^verbatim>\<open>\s\<close> match further characters) are outside the model.
  A dict is an association list read through \<^const>\<open>map_of\<close>.
\<close>

datatype pyfloat = FloatVal rat | FloatInf | FloatNegInf | FloatNaN

datatype json =
    JNull
  | JBool bool
  | JInt int
  | JFloat pyfloat
  | JStr string
  | JArr "json list"
  | JObj "(string \<times> json) list"

text \<open>
  The exceptions that can reach the handler's \<^verbatim>\<open>except\<close> clauses. \<^verbatim>\<open>JSONDecodeError\<close> is
  what \<^verbatim>\<open>response.json()\<close> raises; \<^verbatim>\<open>BadRequest\<close> and \<^verbatim>\<open>UnsupportedMediaType\<close> are the
  werkzeug exceptions of \<^verbatim>\<open>request.get_json()\<close>; the next five are classes of
  \<^verbatim>\<open>requests.exceptions\<close>: \<^verbatim>\<open>class ConnectTimeout(ConnectionError, Timeout)\<close>,
  \<^verbatim>\<open>class ReadTimeout(Timeout)\<close>, and \<^verbatim>\<open>RequestException\<close> for the remaining ones.
\<close>

datatype exn =
    TypeError
  | KeyError
  | AttributeError
  | ValueError
  | JSONDecodeError
  | BadRequest
  | UnsupportedMediaType
  | ConnectionError
  | ConnectTimeout
  | ReadTimeout
  | Timeout
  | RequestException
  | OtherException

fun isinstance_ValueError :: "exn \<Rightarrow> bool" where
  "isinstance_ValueError ValueError = True"
| "isinstance_ValueError JSONDecodeError = True"
| "isinstance_ValueError _ = False"

fun isinstance_ConnectionError :: "exn \<Rightarrow> bool" where
  "isinstance_ConnectionError ConnectionError = True"
| "isinstance_ConnectionError ConnectTimeout = True"
| "isinstance_ConnectionError _ = False"

fun isinstance_Timeout :: "exn \<Rightarrow> bool" where
  "isinstance_Timeout Timeout = True"
| "isinstance_Timeout ConnectTimeout = True"
| "isinstance_Timeout ReadTimeout = True"
| "isinstance_Timeout _ = False"

record response =
  status :: int
  body :: json

definition error_response :: "int \<Rightarrow> string \<Rightarrow> response" where
  \<comment> \<open>\<^verbatim>\<open>return jsonify({"error": msg}), code\<close>\<close>
  "error_response code msg = \<lparr>status = code, body = JObj [(''error'', JStr msg)]\<rparr>"

section \<open>Python operations on JSON values\<close>

fun truthy :: "json \<Rightarrow> bool" where
  "truthy JNull = False"
| "truthy (JBool b) = b"
| "truthy (JInt i) = (i \<noteq> 0)"
| "truthy (JFloat f) = (f \<noteq> FloatVal 0)"
| "truthy (JStr s) = (s \<noteq> [])"
| "truthy (JArr xs) = (xs \<noteq> [])"
| "truthy (JObj kvs) = (kvs \<noteq> [])"

fun py_substr :: "string \<Rightarrow> string \<Rightarrow> bool" where
  "py_substr k [] = (k = [])"
| "py_substr k (c # cs) = (take (length k) (c # cs) = k \<or> py_substr k cs)"

fun py_in :: "string \<Rightarrow> json \<Rightarrow> exn + bool" where
  \<comment> \<open>\<^verbatim>\<open>k in data\<close> for a \<^verbatim>\<open>str\<close> \<open>k\<close>: key of a dict, element of a list, substring of a str\<close>
  "py_in k (JObj kvs) = Inr (map_of kvs k \<noteq> None)"
| "py_in k (JArr xs) = Inr (JStr k \<in> set xs)"
| "py_in k (JStr s) = Inr (py_substr k s)"
| "py_in k _ = Inl TypeError"

fun py_getitem :: "json \<Rightarrow> string \<Rightarrow> exn + json" where
  \<comment> \<open>\<^verbatim>\<open>data[k]\<close> for a \<^verbatim>\<open>str\<close> \<open>k\<close>\<close>
  "py_getitem (JObj kvs) k = (case map_of kvs k of None \<Rightarrow> Inl KeyError | Some v \<Rightarrow> Inr v)"
| "py_getitem _ k = Inl TypeError"

fun py_get :: "json \<Rightarrow> string \<Rightarrow> exn + json" where
  \<comment> \<open>\<^verbatim>\<open>data.get(k)\<close>\<close>
  "py_get (JObj kvs) k = (case map_of kvs k of None \<Rightarrow> Inr JNull | Some v \<Rightarrow> Inr v)"
| "py_get _ k = Inl AttributeError"

section \<open>Regular expressions of the source\<close>

definition is_digit :: "char \<Rightarrow> bool" where
  "is_digit c = (c \<in> set ''0123456789'')"

definition is_upper :: "char \<Rightarrow> bool" where
  "is_upper c = (c \<in> set ''ABCDEFGHIJKLMNOPQRSTUVWXYZ'')"

definition is_space :: "char \<Rightarrow> bool" where
  \<comment> \<open>\<^verbatim>\<open>\s\<close> on the code points below 256\<close>
  "is_space c = (let n = (of_char c :: nat) in
     (9 \<le> n \<and> n \<le> 13) \<or> (28 \<le> n \<and> n \<le> 32) \<or> n = 133 \<or> n = 160)"

datatype item = One "char \<Rightarrow> bool" | Many1 "char \<Rightarrow> bool"

fun fullmatch :: "item list \<Rightarrow> string \<Rightarrow> bool" where
  "fullmatch [] s = (s = [])"
| "fullmatch (One p # is) s = (case s of [] \<Rightarrow> False | c # cs \<Rightarrow> p c \<and> fullmatch is cs)"
| "fullmatch (Many1 p # is) s =
     (\<exists>n \<in> set [1 ..< Suc (length s)]. list_all p (take n s) \<and> fullmatch is (drop n s))"

definition anchored_match :: "item list \<Rightarrow> string \<Rightarrow> bool" where
  \<comment> \<open>\<^verbatim>\<open>re.match('^...$', s)\<close>: \<^verbatim>\<open>$\<close> matches at the end of the string and also just
      before a newline that ends the string\<close>
  "anchored_match p s =
     (fullmatch p s \<or> (s \<noteq> [] \<and> last s = CHR 0x0A \<and> fullmatch p (butlast s)))"

fun re_match :: "item list \<Rightarrow> json \<Rightarrow> exn + bool" where
  "re_match p (JStr s) = Inr (anchored_match p s)"
| "re_match p _ = Inl TypeError"

definition lit :: "char \<Rightarrow> item" where
  "lit c = One (\<lambda>x. x = c)"

definition not_space_at :: "char \<Rightarrow> bool" where
  \<comment> \<open>\<^verbatim>\<open>[^\s@]\<close>\<close>
  "not_space_at c = (\<not> is_space c \<and> c \<noteq> CHR ''@'')"

definition email_pattern :: "item list" where
  \<comment> \<open>\<^verbatim>\<open>^[^\s@]+@[^\s@]+\.[^\s@]+$\<close>\<close>
  "email_pattern =
     [Many1 not_space_at, lit CHR ''@'', Many1 not_space_at, lit CHR ''.'', Many1 not_space_at]"

definition postal_pattern :: "item list" where
  \<comment> \<open>\<^verbatim>\<open>^\d{5}$\<close>\<close>
  "postal_pattern = replicate 5 (One is_digit)"

definition ssn_pattern :: "item list" where
  \<comment> \<open>\<^verbatim>\<open>^\d{9}$\<close>\<close>
  "ssn_pattern = replicate 9 (One is_digit)"

definition birth_pattern :: "item list" where
  \<comment> \<open>\<^verbatim>\<open>^\d{4}-\d{2}-\d{2}$\<close>\<close>
  "birth_pattern =
     replicate 4 (One is_digit) @ [lit CHR ''-''] @ replicate 2 (One is_digit) @
     [lit CHR ''-''] @ replicate 2 (One is_digit)"

definition state_pattern :: "item list" where
  \<comment> \<open>\<^verbatim>\<open>^[A-Z]{2}$\<close>\<close>
  "state_pattern = replicate 2 (One is_upper)"

fun re_sub_nondigits :: "json \<Rightarrow> exn + string" where
  \<comment> \<open>\<^verbatim>\<open>re.sub(r'\D', '', v)\<close>\<close>
  "re_sub_nondigits (JStr s) = Inr (filter is_digit s)"
| "re_sub_nondigits _ = Inl TypeError"

section \<open>Dates\<close>

record pydate =
  year :: int
  month :: int
  day :: int

definition digit_val :: "char \<Rightarrow> int" where
  "digit_val c = int (of_char c) - 48"

text \<open>
  \<^verbatim>\<open>datetime.strptime(s, '%Y-%m-%d')\<close> matches \<open>s\<close> from its start against
  \<^verbatim>\<open>(?P<Y>\d\d\d\d)-(?P<m>1[0-2]|0[1-9]|[1-9])-(?P<d>3[0-1]|[1-2]\d|0[1-9]|[1-9]| [1-9])\<close>,
  raises \<^verbatim>\<open>ValueError\<close> when there is no match or when the match does not reach the
  end of \<open>s\<close>, and raises \<^verbatim>\<open>ValueError\<close> again when year, month and day are not a
  date of the calendar. Each function below lists the ways its part of the pattern can
  match, in the order the regular expression engine tries them, each with the text left.
\<close>

fun re_year :: "string \<Rightarrow> (int \<times> string) list" where
  "re_year (a # b # c # d # r) =
     (if is_digit a \<and> is_digit b \<and> is_digit c \<and> is_digit d
      then [(1000 * digit_val a + 100 * digit_val b + 10 * digit_val c + digit_val d, r)]
      else [])"
| "re_year _ = []"

fun re_dash :: "string \<Rightarrow> string list" where
  "re_dash (c # r) = (if c = CHR ''-'' then [r] else [])"
| "re_dash [] = []"

definition two_chars :: "(char \<Rightarrow> bool) \<Rightarrow> (char \<Rightarrow> bool) \<Rightarrow> (char \<Rightarrow> char \<Rightarrow> int) \<Rightarrow>
    string \<Rightarrow> (int \<times> string) list" where
  "two_chars p q val s =
     (case s of a # b # r \<Rightarrow> (if p a \<and> q b then [(val a b, r)] else []) | _ \<Rightarrow> [])"

definition one_char :: "(char \<Rightarrow> bool) \<Rightarrow> string \<Rightarrow> (int \<times> string) list" where
  "one_char p s = (case s of a # r \<Rightarrow> (if p a then [(digit_val a, r)] else []) | [] \<Rightarrow> [])"

definition nonzero_digit :: "char \<Rightarrow> bool" where
  "nonzero_digit c = (c \<in> set ''123456789'')"

definition re_month :: "string \<Rightarrow> (int \<times> string) list" where
  \<comment> \<open>\<^verbatim>\<open>1[0-2]|0[1-9]|[1-9]\<close>\<close>
  "re_month s =
     two_chars (\<lambda>a. a = CHR ''1'') (\<lambda>b. b \<in> set ''012'') (\<lambda>a b. 10 + digit_val b) s @
     two_chars (\<lambda>a. a = CHR ''0'') nonzero_digit (\<lambda>a b. digit_val b) s @
     one_char nonzero_digit s"

definition re_day :: "string \<Rightarrow> (int \<times> string) list" where
  \<comment> \<open>\<^verbatim>\<open>3[0-1]|[1-2]\d|0[1-9]|[1-9]| [1-9]\<close>\<close>
  "re_day s =
     two_chars (\<lambda>a. a = CHR ''3'') (\<lambda>b. b \<in> set ''01'') (\<lambda>a b. 30 + digit_val b) s @
     two_chars (\<lambda>a. a \<in> set ''12'') is_digit (\<lambda>a b. 10 * digit_val a + digit_val b) s @
     two_chars (\<lambda>a. a = CHR ''0'') nonzero_digit (\<lambda>a b. digit_val b) s @
     one_char nonzero_digit s @
     two_chars (\<lambda>a. a = CHR '' '') nonzero_digit (\<lambda>a b. digit_val b) s"

definition strptime_matches :: "string \<Rightarrow> (int \<times> int \<times> int \<times> string) list" where
  "strptime_matches s =
     [(y, m, d, r5). (y, r1) \<leftarrow> re_year s, r2 \<leftarrow> re_dash r1, (m, r3) \<leftarrow> re_month r2,
        r4 \<leftarrow> re_dash r3, (d, r5) \<leftarrow> re_day r4]"

definition is_leap :: "int \<Rightarrow> bool" where
  "is_leap y = (y mod 4 = 0 \<and> (y mod 100 \<noteq> 0 \<or> y mod 400 = 0))"

definition days_in_month :: "int \<Rightarrow> int \<Rightarrow> int" where
  "days_in_month y m =
     (if m = 2 then (if is_leap y then 29 else 28)
      else if m = 4 \<or> m = 6 \<or> m = 9 \<or> m = 11 then 30 else 31)"

definition strptime_str :: "string \<Rightarrow> exn + pydate" where
  "strptime_str s =
     (case strptime_matches s of
        [] \<Rightarrow> Inl ValueError
      | (y, m, d, rest) # _ \<Rightarrow>
          if rest \<noteq> [] then Inl ValueError
          else if y < 1 \<or> days_in_month y m < d then Inl ValueError
          else Inr \<lparr>year = y, month = m, day = d\<rparr>)"

fun strptime :: "json \<Rightarrow> exn + pydate" where
  "strptime (JStr s) = strptime_str s"
| "strptime _ = Inl TypeError"

definition age :: "pydate \<Rightarrow> pydate \<Rightarrow> int" where
  \<comment> \<open>\<^verbatim>\<open>today.year - birth.year - ((today.month, today.day) < (birth.month, birth.day))\<close>\<close>
  "age today birth =
     year today - year birth -
       (if month today < month birth \<or> (month today = month birth \<and> day today < day birth)
        then 1 else 0)"

section \<open>The validation steps\<close>

definition FIELD_NAMES :: "(string \<times> string) list" where
  "FIELD_NAMES =
     [(''name_first'', ''First Name''),
      (''name_last'', ''Last Name''),
      (''email_address'', ''Email Address''),
      (''phone_number'', ''Phone Number''),
      (''address_line_1'', ''Address Line 1''),
      (''address_line_2'', ''Address Line 2''),
      (''address_city'', ''City''),
      (''address_state'', ''State''),
      (''address_postal_code'', ''Postal Code''),
      (''address_country_code'', ''Country''),
      (''document_ssn'', ''Social Security Number''),
      (''birth_date'', ''Date of Birth'')]"

definition required_fields :: "string list" where
  "required_fields =
     [''name_first'', ''name_last'', ''email_address'', ''phone_number'',
      ''address_line_1'', ''address_city'', ''address_state'',
      ''address_postal_code'', ''address_country_code'',
      ''document_ssn'', ''birth_date'']"

definition clean_name :: "string \<Rightarrow> string" where
  \<comment> \<open>\<^verbatim>\<open>FIELD_NAMES.get(field, field)\<close>\<close>
  "clean_name field = (case map_of FIELD_NAMES field of Some n \<Rightarrow> n | None \<Rightarrow> field)"

definition missing_response :: "string \<Rightarrow> response" where
  "missing_response field =
     error_response 400 (''Missing required field: '' @ clean_name field)"

text \<open>
  A step of the handler either raises, returns a response, or falls through to the
  next statement.
\<close>

datatype outcome = Raised exn | Returned response | Continue

fun first_stop :: "outcome list \<Rightarrow> outcome" where
  "first_stop [] = Continue"
| "first_stop (Continue # rest) = first_stop rest"
| "first_stop (stop # rest) = stop"

fun presence_loop :: "string list \<Rightarrow> json \<Rightarrow> outcome" where
  \<comment> \<open>\<^verbatim>\<open>for field in required_fields: if field not in data or not data[field]: return ...\<close>\<close>
  "presence_loop [] data = Continue"
| "presence_loop (field # rest) data =
     (case py_in field data of
        Inl e \<Rightarrow> Raised e
      | Inr False \<Rightarrow> Returned (missing_response field)
      | Inr True \<Rightarrow>
          (case py_getitem data field of
             Inl e \<Rightarrow> Raised e
           | Inr v \<Rightarrow>
               if \<not> truthy v then Returned (missing_response field)
               else presence_loop rest data))"

definition field_fails :: "string \<Rightarrow> (json \<Rightarrow> exn + bool) \<Rightarrow> json \<Rightarrow> exn + bool" where
  \<comment> \<open>\<^verbatim>\<open>k in data and not ok(data[k])\<close>\<close>
  "field_fails k ok data =
     (case py_in k data of
        Inl e \<Rightarrow> Inl e
      | Inr False \<Rightarrow> Inr False
      | Inr True \<Rightarrow>
          (case py_getitem data k of
             Inl e \<Rightarrow> Inl e
           | Inr v \<Rightarrow> (case ok v of Inl e \<Rightarrow> Inl e | Inr b \<Rightarrow> Inr (\<not> b))))"

definition reject_if :: "exn + bool \<Rightarrow> response \<Rightarrow> outcome" where
  "reject_if c r = (case c of Inl e \<Rightarrow> Raised e | Inr True \<Rightarrow> Returned r | Inr False \<Rightarrow> Continue)"

definition phone_ok :: "json \<Rightarrow> exn + bool" where
  "phone_ok v =
     (case re_sub_nondigits v of Inl e \<Rightarrow> Inl e | Inr phone_clean \<Rightarrow> Inr (length phone_clean = 10))"

definition adult :: "pydate \<Rightarrow> json \<Rightarrow> exn + bool" where
  "adult today v = (case strptime v of Inl e \<Rightarrow> Inl e | Inr birth \<Rightarrow> Inr (\<not> age today birth < 18))"

definition check_email :: "json \<Rightarrow> outcome" where
  "check_email data =
     reject_if (field_fails ''email_address'' (re_match email_pattern) data)
       (error_response 400 ''Invalid email format'')"

definition check_phone :: "json \<Rightarrow> outcome" where
  "check_phone data =
     reject_if (field_fails ''phone_number'' phone_ok data)
       (error_response 400 ''Phone number must be 10 digits'')"

definition check_birth :: "pydate \<Rightarrow> json \<Rightarrow> outcome" where
  "check_birth today data =
     reject_if (field_fails ''birth_date'' (adult today) data)
       (error_response 400 ''Must be at least 18 years old'')"

definition check_postal :: "json \<Rightarrow> outcome" where
  "check_postal data =
     reject_if (field_fails ''address_postal_code'' (re_match postal_pattern) data)
       (error_response 400 ''Postal code must be 5 digits'')"

fun first_failure :: "((exn + bool) \<times> string) list \<Rightarrow> exn + (bool \<times> string option)" where
  "first_failure [] = Inr (True, None)"
| "first_failure ((c, msg) # rest) =
     (case c of
        Inl e \<Rightarrow> Inl e
      | Inr True \<Rightarrow> Inr (False, Some msg)
      | Inr False \<Rightarrow> first_failure rest)"

definition is_US :: "json \<Rightarrow> exn + bool" where
  \<comment> \<open>\<^verbatim>\<open>data['address_country_code'] != 'US'\<close> never raises\<close>
  "is_US v = Inr (v = JStr ''US'')"

definition msg_country :: string where
  \<comment> \<open>\<^verbatim>\<open>"Country must be 'US'"\<close>\<close>
  "msg_country = ''Country must be '' @ [CHR 0x27] @ ''US'' @ [CHR 0x27]"

definition validate_format :: "json \<Rightarrow> exn + (bool \<times> string option)" where
  "validate_format data =
     first_failure
       [(field_fails ''document_ssn'' (re_match ssn_pattern) data,
           ''SSN must be exactly 9 digits with no dashes''),
        (field_fails ''birth_date'' (re_match birth_pattern) data,
           ''Date of Birth must be in YYYY-MM-DD format''),
        (field_fails ''address_state'' (re_match state_pattern) data,
           ''State must be a 2-letter code (e.g., NY, CA)''),
        (field_fails ''address_country_code'' is_US data, msg_country)]"

definition check_format :: "json \<Rightarrow> outcome" where
  \<comment> \<open>\<^verbatim>\<open>is_valid, error_message = validate_format(data); if not is_valid: return ...\<close>\<close>
  "check_format data =
     (case validate_format data of
        Inl e \<Rightarrow> Raised e
      | Inr (is_valid, error_message) \<Rightarrow>
          if \<not> is_valid
          then Returned \<lparr>status = 400,
                 body = JObj [(''error'', case error_message of None \<Rightarrow> JNull | Some m \<Rightarrow> JStr m)]\<rparr>
          else Continue)"

definition validate :: "pydate \<Rightarrow> json \<Rightarrow> outcome" where
  \<comment> \<open>lines 88 to 128 of \<^verbatim>\<open>submit_app\<close>\<close>
  "validate today data =
     first_stop
       [presence_loop required_fields data,
        check_email data,
        check_phone data,
        check_birth today data,
        check_postal data,
        check_format data]"

text \<open>
  \<^verbatim>\<open>validate_format\<close> makes four checks of its own, so the handler makes nine in all
  before it calls the provider. They are named here one by one, in the order of the
  source.
\<close>

definition check_ssn :: "json \<Rightarrow> outcome" where
  "check_ssn data =
     reject_if (field_fails ''document_ssn'' (re_match ssn_pattern) data)
       (error_response 400 ''SSN must be exactly 9 digits with no dashes'')"

definition check_birth_format :: "json \<Rightarrow> outcome" where
  "check_birth_format data =
     reject_if (field_fails ''birth_date'' (re_match birth_pattern) data)
       (error_response 400 ''Date of Birth must be in YYYY-MM-DD format'')"

definition check_state :: "json \<Rightarrow> outcome" where
  "check_state data =
     reject_if (field_fails ''address_state'' (re_match state_pattern) data)
       (error_response 400 ''State must be a 2-letter code (e.g., NY, CA)'')"

definition check_country :: "json \<Rightarrow> outcome" where
  "check_country data =
     reject_if (field_fails ''address_country_code'' is_US data)
       (error_response 400 msg_country)"

definition validation_steps :: "pydate \<Rightarrow> json \<Rightarrow> outcome list" where
  "validation_steps today data =
     [presence_loop required_fields data,
      check_email data,
      check_phone data,
      check_birth today data,
      check_postal data,
      check_ssn data,
      check_birth_format data,
      check_state data,
      check_country data]"

section \<open>The provider call and the handler\<close>

record provider_response =
  status_code :: int
  json_result :: "exn + json"  \<comment> \<open>what \<^verbatim>\<open>response.json()\<close> returns or raises\<close>

record request =
  is_json :: bool  \<comment> \<open>the content type is a JSON one\<close>
  payload :: "json option"  \<comment> \<open>the parsed body; \<open>None\<close> when it is empty or not JSON\<close>

record env =
  req :: request
  today :: pydate  \<comment> \<open>\<^verbatim>\<open>datetime.today()\<close>\<close>
  post :: "json \<Rightarrow> exn + provider_response"  \<comment> \<open>\<^verbatim>\<open>requests.post(url, json=data, ...)\<close>\<close>

definition get_json :: "request \<Rightarrow> exn + json" where
  \<comment> \<open>\<^verbatim>\<open>request.get_json()\<close> of Flask 2.1 and later, with its default arguments: it raises
      \<^verbatim>\<open>UnsupportedMediaType\<close> when the content type is not a JSON one and \<^verbatim>\<open>BadRequest\<close>
      when the body does not parse\<close>
  "get_json r =
     (if \<not> is_json r then Inl UnsupportedMediaType
      else case payload r of None \<Rightarrow> Inl BadRequest | Some v \<Rightarrow> Inr v)"

definition call_provider :: "env \<Rightarrow> json \<Rightarrow> exn + response" where
  \<comment> \<open>lines 131 to 150\<close>
  "call_provider e data =
     (case post e data of
        Inl x \<Rightarrow> Inl x
      | Inr r \<Rightarrow>
          if status_code r \<noteq> 201 then Inr (error_response (status_code r) ''Alloy API error'')
          else
            (case json_result r of
               Inl x \<Rightarrow> Inl x
             | Inr alloy_response \<Rightarrow>
                 (case py_getitem alloy_response ''summary'' of
                    Inl x \<Rightarrow> Inl x
                  | Inr summary \<Rightarrow>
                      (case py_getitem summary ''outcome'' of
                         Inl x \<Rightarrow> Inl x
                       | Inr outcome \<Rightarrow>
                           (case py_get alloy_response ''evaluation_token'' of
                              Inl x \<Rightarrow> Inl x
                            | Inr token \<Rightarrow>
                                Inr \<lparr>status = 200,
                                  body = JObj [(''outcome'', outcome),
                                               (''evaluation_token'', token)]\<rparr>)))))"

definition handle_exn :: "exn \<Rightarrow> response" where
  \<comment> \<open>the \<^verbatim>\<open>except\<close> clauses, in the order of the source\<close>
  "handle_exn x =
     (if isinstance_ValueError x then error_response 400 ''Invalid data format''
      else if isinstance_ConnectionError x
        then error_response 503 ''Unable to connect to verification service''
      else if isinstance_Timeout x
        then error_response 504 ''Request timed out. Please try again.''
      else error_response 500 ''An unexpected error occurred'')"

text \<open>
  The result of one request: the response, and the payloads sent to the provider
  while the request was handled, one for each call of \<^verbatim>\<open>requests.post\<close>.
\<close>

record result =
  resp :: response
  posted :: "json list"

definition submit_app :: "env \<Rightarrow> result" where
  "submit_app e =
     (case get_json (req e) of
        Inl x \<Rightarrow> \<lparr>resp = handle_exn x, posted = []\<rparr>
      | Inr data \<Rightarrow>
          (case validate (today e) data of
             Raised x \<Rightarrow> \<lparr>resp = handle_exn x, posted = []\<rparr>
           | Returned r \<Rightarrow> \<lparr>resp = r, posted = []\<rparr>
           | Continue \<Rightarrow>
               (case call_provider e data of
                  Inl x \<Rightarrow> \<lparr>resp = handle_exn x, posted = [data]\<rparr>
                | Inr r \<Rightarrow> \<lparr>resp = r, posted = [data]\<rparr>)))"

section \<open>Properties of dicts and inputs used in the examples\<close>

definition missing_in :: "(string \<times> json) list \<Rightarrow> string \<Rightarrow> bool" where
  \<comment> \<open>\<^verbatim>\<open>field not in data or not data[field]\<close>, for a dict\<close>
  "missing_in kvs field = (case map_of kvs field of None \<Rightarrow> True | Some v \<Rightarrow> \<not> truthy v)"

definition without_key :: "string \<Rightarrow> (string \<times> json) list \<Rightarrow> (string \<times> json) list" where
  "without_key k kvs = filter (\<lambda>kv. fst kv \<noteq> k) kvs"

definition valid_fields :: "(string \<times> json) list" where
  "valid_fields =
     [(''name_first'', JStr ''Jane''),
      (''name_last'', JStr ''Doe''),
      (''email_address'', JStr ''jane@example.com''),
      (''phone_number'', JStr ''(555) 123-4567''),
      (''address_line_1'', JStr ''1 Main St''),
      (''address_city'', JStr ''New York''),
      (''address_state'', JStr ''NY''),
      (''address_postal_code'', JStr ''10001''),
      (''address_country_code'', JStr ''US''),
      (''document_ssn'', JStr ''123456789''),
      (''birth_date'', JStr ''1990-01-15'')]"

definition a_day :: pydate where
  "a_day = \<lparr>year = 2026, month = 11, day = 4\<rparr>"

definition approved :: provider_response where
  "approved =
     \<lparr>status_code = 201,
      json_result = Inr (JObj [(''summary'', JObj [(''outcome'', JStr ''Approved'')]),
                               (''evaluation_token'', JStr ''abc123'')])\<rparr>"

definition approved_no_token :: provider_response where
  "approved_no_token =
     \<lparr>status_code = 201,
      json_result = Inr (JObj [(''summary'', JObj [(''outcome'', JStr ''Approved'')])])\<rparr>"

definition no_summary :: provider_response where
  "no_summary =
     \<lparr>status_code = 201, json_result = Inr (JObj [(''evaluation_token'', JStr ''abc123'')])\<rparr>"

definition unavailable :: provider_response where
  "unavailable = \<lparr>status_code = 502, json_result = Inl JSONDecodeError\<rparr>"

definition env_of :: "(string \<times> json) list \<Rightarrow> exn + provider_response \<Rightarrow> env" where
  \<comment> \<open>a request with a JSON object as its body, on \<^const>\<open>a_day\<close>, and what the provider does\<close>
  "env_of kvs p =
     \<lparr>req = \<lparr>is_json = True, payload = Some (JObj kvs)\<rparr>, today = a_day, post = (\<lambda>_. p)\<rparr>"

definition env_no_body :: env where
  "env_no_body =
     \<lparr>req = \<lparr>is_json = True, payload = None\<rparr>, today = a_day, post = (\<lambda>_. Inr approved)\<rparr>"

definition with_field :: "string \<Rightarrow> string \<Rightarrow> (string \<times> json) list \<Rightarrow> (string \<times> json) list" where
  \<comment> \<open>the dict with \<open>k\<close> set to the string \<open>v\<close>\<close>
  "with_field k v kvs = (k, JStr v) # kvs"

definition ssn_newline :: string where
  "ssn_newline = ''123456789'' @ [CHR 0x0A]"

section \<open>What the patterns match\<close>

text \<open>
  The matcher against the usual reading of a pattern: one character of a class, or one
  or more of them, followed by the rest.
\<close>

lemma fullmatch_One:
  "fullmatch (One p # is) s = (\<exists>c b. s = c # b \<and> p c \<and> fullmatch is b)"
  by (cases s) auto

lemma fullmatch_Many1:
  "fullmatch (Many1 p # is) s =
     (\<exists>a b. s = a @ b \<and> a \<noteq> [] \<and> list_all p a \<and> fullmatch is b)"
proof
  assume "fullmatch (Many1 p # is) s"
  then obtain n where n: "1 \<le> n" "n \<le> length s" "list_all p (take n s)" "fullmatch is (drop n s)"
    by auto
  then have "s = take n s @ drop n s \<and> take n s \<noteq> [] \<and> list_all p (take n s) \<and>
      fullmatch is (drop n s)"
    by auto
  then show "\<exists>a b. s = a @ b \<and> a \<noteq> [] \<and> list_all p a \<and> fullmatch is b"
    by blast
next
  assume "\<exists>a b. s = a @ b \<and> a \<noteq> [] \<and> list_all p a \<and> fullmatch is b"
  then obtain a b where ab: "s = a @ b" "a \<noteq> []" "list_all p a" "fullmatch is b"
    by blast
  then have "1 \<le> length a" and "length a \<le> length s"
    by (cases a; simp)+
  then have "length a \<in> set [1 ..< Suc (length s)]"
    by auto
  moreover from ab have "list_all p (take (length a) s) \<and> fullmatch is (drop (length a) s)"
    by simp
  ultimately show "fullmatch (Many1 p # is) s"
    unfolding fullmatch.simps by blast
qed

lemma email_pattern_matches:
  "fullmatch email_pattern s =
     (\<exists>a b c. s = a @ ''@'' @ b @ ''.'' @ c \<and> a \<noteq> [] \<and> b \<noteq> [] \<and> c \<noteq> [] \<and>
        list_all not_space_at a \<and> list_all not_space_at b \<and> list_all not_space_at c)"
proof -
  have last: "\<And>t. fullmatch [Many1 not_space_at] t = (t \<noteq> [] \<and> list_all not_space_at t)"
    unfolding fullmatch_Many1 by auto
  show ?thesis
    unfolding email_pattern_def lit_def fullmatch_Many1 fullmatch_One last
    by (rule iffI; clarsimp; blast)
qed

section \<open>The handler, stage by stage\<close>

lemma submit_app_returned:
  "get_json (req e) = Inr data \<Longrightarrow> validate (today e) data = Returned r \<Longrightarrow>
   submit_app e = \<lparr>resp = r, posted = []\<rparr>"
  by (simp add: submit_app_def)

lemma submit_app_raised:
  "get_json (req e) = Inr data \<Longrightarrow> validate (today e) data = Raised x \<Longrightarrow>
   submit_app e = \<lparr>resp = handle_exn x, posted = []\<rparr>"
  by (simp add: submit_app_def)

lemma submit_app_continue:
  "get_json (req e) = Inr data \<Longrightarrow> validate (today e) data = Continue \<Longrightarrow>
   submit_app e =
     (case call_provider e data of
        Inl x \<Rightarrow> \<lparr>resp = handle_exn x, posted = [data]\<rparr>
      | Inr r \<Rightarrow> \<lparr>resp = r, posted = [data]\<rparr>)"
  by (simp add: submit_app_def)

lemma py_getitem_Inl: "py_getitem d k = Inl x \<Longrightarrow> x = TypeError \<or> x = KeyError"
  by (cases d) (auto split: option.splits)

lemma handle_exn_unexpected:
  "x = TypeError \<or> x = KeyError \<or> x = BadRequest \<or> x = UnsupportedMediaType \<Longrightarrow>
   handle_exn x = error_response 500 ''An unexpected error occurred''"
  by (auto simp: handle_exn_def)

lemma get_json_env_of: "get_json (req (env_of kvs p)) = Inr (JObj kvs)"
  by (simp add: get_json_def env_of_def)

lemma post_env_of: "post (env_of kvs p) data = p"
  by (simp add: env_of_def)

lemma valid_fields_pass: "validate (today (env_of valid_fields p)) (JObj valid_fields) = Continue"
  by (simp add: env_of_def) code_simp

lemma first_stop_nth:
  "k < length xs \<Longrightarrow> \<forall>j<k. xs ! j = Continue \<Longrightarrow> xs ! k \<noteq> Continue \<Longrightarrow>
   first_stop xs = xs ! k"
proof (induction xs arbitrary: k)
  case Nil
  then show ?case by simp
next
  case (Cons x xs)
  show ?case
  proof (cases k)
    case 0
    with Cons.prems show ?thesis by (cases x) simp_all
  next
    case (Suc k')
    with Cons.prems have "x = Continue" by auto
    moreover from Suc Cons.prems have "first_stop xs = xs ! k'"
      by (intro Cons.IH) auto
    ultimately show ?thesis using Suc by simp
  qed
qed

lemma check_format_steps:
  "check_format data =
     first_stop [check_ssn data, check_birth_format data, check_state data, check_country data]"
  unfolding check_format_def validate_format_def check_ssn_def check_birth_format_def
    check_state_def check_country_def reject_if_def error_response_def
  by (simp split: sum.splits bool.splits)

lemma first_stop_append:
  "first_stop (xs @ ys) = (case first_stop xs of Continue \<Rightarrow> first_stop ys | stop \<Rightarrow> stop)"
  by (induction xs rule: first_stop.induct) simp_all

lemma first_stop_singleton: "first_stop [x] = x"
  by (cases x) simp_all

lemma validate_steps: "validate t data = first_stop (validation_steps t data)"
proof -
  let ?a = "[presence_loop required_fields data, check_email data, check_phone data,
      check_birth t data, check_postal data]"
  let ?b = "[check_ssn data, check_birth_format data, check_state data, check_country data]"
  have "validate t data = first_stop (?a @ [check_format data])"
    by (simp add: validate_def)
  also have "\<dots> = (case first_stop ?a of Continue \<Rightarrow> first_stop ?b | stop \<Rightarrow> stop)"
    unfolding first_stop_append first_stop_singleton check_format_steps ..
  also have "\<dots> = first_stop (?a @ ?b)"
    unfolding first_stop_append ..
  finally show ?thesis
    by (simp add: validation_steps_def)
qed

lemma today_env_of: "today (env_of kvs p) = a_day"
  by (simp add: env_of_def)

lemma py_getitem_py_in: "py_getitem d k = Inr v \<Longrightarrow> py_in k d = Inr True"
  by (cases d) (auto split: option.splits)

lemma field_fails_found:
  "py_getitem d k = Inr v \<Longrightarrow>
   field_fails k ok d = (case ok v of Inl x \<Rightarrow> Inl x | Inr b \<Rightarrow> Inr (\<not> b))"
  by (simp add: field_fails_def py_getitem_py_in)


lemma reject_if_Returned: "reject_if c r = Returned r' \<Longrightarrow> r' = r"
  by (auto simp: reject_if_def split: sum.splits bool.splits)

lemma first_stop_Returned: "first_stop xs = Returned r \<Longrightarrow> Returned r \<in> set xs"
  by (induction xs rule: first_stop.induct) auto

lemma handle_exn_400: "handle_exn x = error_response 400 m \<Longrightarrow> m = ''Invalid data format''"
  by (auto simp: handle_exn_def error_response_def split: if_splits)

lemma call_provider_400:
  "call_provider e d = Inr (error_response 400 m) \<Longrightarrow> m = ''Alloy API error''"
  by (auto simp: call_provider_def error_response_def split: sum.splits if_splits)

lemma resp_400_from_validation:
  assumes "get_json (req e) = Inr data"
    and "resp (submit_app e) = error_response 400 m"
    and "m \<noteq> ''Invalid data format''"
    and "m \<noteq> ''Alloy API error''"
  shows "validate (today e) data = Returned (error_response 400 m)"
proof (cases "validate (today e) data")
  case (Raised x)
  with assms(1,2) have "handle_exn x = error_response 400 m"
    by (simp add: submit_app_raised)
  with assms(3) show ?thesis
    by (auto dest: handle_exn_400)
next
  case (Returned r)
  with assms(1,2) show ?thesis
    by (simp add: submit_app_returned)
next
  case Continue
  show ?thesis
  proof (cases "call_provider e data")
    case (Inl x)
    with Continue assms(1,2) have "handle_exn x = error_response 400 m"
      by (simp add: submit_app_continue)
    with assms(3) show ?thesis
      by (auto dest: handle_exn_400)
  next
    case (Inr r)
    with Continue assms(1,2) have "call_provider e data = Inr (error_response 400 m)"
      by (simp add: submit_app_continue)
    with assms(4) show ?thesis
      by (auto dest: call_provider_400)
  qed
qed

lemma returned_step:
  assumes "validate t data = Returned (error_response 400 m)"
    and "presence_loop required_fields data = Continue"
  shows "(m = ''Invalid email format'' \<and> check_email data = Returned (error_response 400 m)) \<or>
         (m = ''Phone number must be 10 digits'' \<and> check_phone data = Returned (error_response 400 m)) \<or>
         (m = ''Must be at least 18 years old'' \<and> check_birth t data = Returned (error_response 400 m)) \<or>
         (m = ''Postal code must be 5 digits'' \<and> check_postal data = Returned (error_response 400 m)) \<or>
         (m = ''SSN must be exactly 9 digits with no dashes'' \<and> check_ssn data = Returned (error_response 400 m)) \<or>
         (m = ''Date of Birth must be in YYYY-MM-DD format'' \<and> check_birth_format data = Returned (error_response 400 m)) \<or>
         (m = ''State must be a 2-letter code (e.g., NY, CA)'' \<and> check_state data = Returned (error_response 400 m)) \<or>
         (m = msg_country \<and> check_country data = Returned (error_response 400 m))"
proof -
  from assms(1) have "Returned (error_response 400 m) \<in> set (validation_steps t data)"
    by (simp add: validate_steps first_stop_Returned)
  with assms(2) consider
      "check_email data = Returned (error_response 400 m)"
    | "check_phone data = Returned (error_response 400 m)"
    | "check_birth t data = Returned (error_response 400 m)"
    | "check_postal data = Returned (error_response 400 m)"
    | "check_ssn data = Returned (error_response 400 m)"
    | "check_birth_format data = Returned (error_response 400 m)"
    | "check_state data = Returned (error_response 400 m)"
    | "check_country data = Returned (error_response 400 m)"
    by (auto simp: validation_steps_def)
  then show ?thesis
  proof cases
    case 1
    then show ?thesis
      using reject_if_Returned [of _ _ "error_response 400 m"]
      by (auto simp: check_email_def error_response_def)
  next
    case 2
    from reject_if_Returned [OF 2 [unfolded check_phone_def]] 2 show ?thesis
      by (auto simp: error_response_def)
  next
    case 3
    from reject_if_Returned [OF 3 [unfolded check_birth_def]] 3 show ?thesis
      by (auto simp: error_response_def)
  next
    case 4
    from reject_if_Returned [OF 4 [unfolded check_postal_def]] 4 show ?thesis
      by (auto simp: error_response_def)
  next
    case 5
    from reject_if_Returned [OF 5 [unfolded check_ssn_def]] 5 show ?thesis
      by (auto simp: error_response_def)
  next
    case 6
    from reject_if_Returned [OF 6 [unfolded check_birth_format_def]] 6 show ?thesis
      by (auto simp: error_response_def)
  next
    case 7
    from reject_if_Returned [OF 7 [unfolded check_state_def]] 7 show ?thesis
      by (auto simp: error_response_def)
  next
    case 8
    from reject_if_Returned [OF 8 [unfolded check_country_def]] 8 show ?thesis
      by (auto simp: error_response_def)
  qed
qed

section \<open>Presence of the required fields\<close>

lemma presence_loop_dict:
  "presence_loop fs (JObj kvs) =
     (case find (missing_in kvs) fs of None \<Rightarrow> Continue | Some f \<Rightarrow> Returned (missing_response f))"
  by (induction fs) (auto simp: missing_in_def split: option.splits)

lemma map_of_without_key:
  "k \<noteq> a \<Longrightarrow> map_of (without_key a kvs) k = map_of kvs k"
  by (induction kvs) (auto simp: without_key_def)

lemma find_cong_set: "(\<And>x. x \<in> set xs \<Longrightarrow> P x = Q x) \<Longrightarrow> find P xs = find Q xs"
  by (induction xs) auto

lemma required_label:
  "f \<in> set required_fields \<Longrightarrow> \<exists>label. map_of FIELD_NAMES f = Some label"
  by (auto simp: required_fields_def FIELD_NAMES_def)

text \<open>
  C3. When the body is a JSON object and \<open>f\<close> is the first of the eleven required fields
  that the object lacks or maps to a value Python counts as false (the empty string among
  them), the response is 400 with the error \<^verbatim>\<open>Missing required field: \<close> followed by the
  display label \<^verbatim>\<open>FIELD_NAMES\<close> gives for \<open>f\<close>, and nothing is sent to the provider.
  \<^verbatim>\<open>address_line_2\<close> is not required: taking it out of the object never changes what the
  presence check does.
\<close>

theorem missing_required_field:
  "(get_json (req e) = Inr (JObj kvs) \<and> find (missing_in kvs) required_fields = Some f \<longrightarrow>
      (\<exists>label. map_of FIELD_NAMES f = Some label \<and>
         submit_app e =
           \<lparr>resp = error_response 400 (''Missing required field: '' @ label), posted = []\<rparr>)) \<and>
   presence_loop required_fields (JObj (without_key ''address_line_2'' kvs)) =
     presence_loop required_fields (JObj kvs)"
proof (intro conjI impI)
  assume a: "get_json (req e) = Inr (JObj kvs) \<and> find (missing_in kvs) required_fields = Some f"
  then have "f \<in> set required_fields"
    by (auto simp: find_Some_iff)
  then obtain label where l: "map_of FIELD_NAMES f = Some label"
    using required_label by blast
  from a have "presence_loop required_fields (JObj kvs) = Returned (missing_response f)"
    by (simp add: presence_loop_dict)
  then have "validate (today e) (JObj kvs) = Returned (missing_response f)"
    by (simp add: validate_def)
  with a have "submit_app e = \<lparr>resp = missing_response f, posted = []\<rparr>"
    by (simp add: submit_app_returned)
  with l show "\<exists>label. map_of FIELD_NAMES f = Some label \<and>
         submit_app e =
           \<lparr>resp = error_response 400 (''Missing required field: '' @ label), posted = []\<rparr>"
    by (simp add: missing_response_def clean_name_def)
next
  have "\<And>x. x \<in> set required_fields \<Longrightarrow>
      missing_in (without_key ''address_line_2'' kvs) x = missing_in kvs x"
    by (auto simp: missing_in_def map_of_without_key required_fields_def)
  then have "find (missing_in (without_key ''address_line_2'' kvs)) required_fields =
      find (missing_in kvs) required_fields"
    by (rule find_cong_set)
  then show "presence_loop required_fields (JObj (without_key ''address_line_2'' kvs)) =
     presence_loop required_fields (JObj kvs)"
    by (simp add: presence_loop_dict)
qed

theorem missing_required_field_witness:
  "find (missing_in (without_key ''address_city'' valid_fields)) required_fields =
     Some ''address_city'' \<and>
   submit_app (env_of (without_key ''address_city'' valid_fields) (Inr approved)) =
     \<lparr>resp = error_response 400 ''Missing required field: City'', posted = []\<rparr>"
proof -
  have f: "find (missing_in (without_key ''address_city'' valid_fields)) required_fields =
      Some ''address_city''"
    by code_simp
  have l: "map_of FIELD_NAMES ''address_city'' = Some ''City''"
    by code_simp
  from missing_required_field
    [of "env_of (without_key ''address_city'' valid_fields) (Inr approved)"
        "without_key ''address_city'' valid_fields" "''address_city''"]
  have "submit_app (env_of (without_key ''address_city'' valid_fields) (Inr approved)) =
     \<lparr>resp = error_response 400 ''Missing required field: City'', posted = []\<rparr>"
    using f l by (simp add: get_json_env_of)
  with f show ?thesis
    by (rule conjI)
qed

section \<open>The body of the request\<close>

text \<open>
  C4, as the code has it. When the request has no JSON body (its content type is not a
  JSON one, or the body is empty or does not parse), \<^verbatim>\<open>request.get_json()\<close> raises a
  werkzeug exception inside the \<^verbatim>\<open>try\<close> block; it is no \<^verbatim>\<open>ValueError\<close>, so the last
  \<^verbatim>\<open>except\<close> clause answers 500 with \<^verbatim>\<open>An unexpected error occurred\<close>.
\<close>

theorem unparseable_body_response:
  assumes "\<not> is_json (req e) \<or> payload (req e) = None"
  shows "submit_app e =
     \<lparr>resp = error_response 500 ''An unexpected error occurred'', posted = []\<rparr>"
proof -
  from assms have "get_json (req e) = Inl UnsupportedMediaType \<or> get_json (req e) = Inl BadRequest"
    by (auto simp: get_json_def)
  then show ?thesis
    by (auto simp: submit_app_def handle_exn_unexpected)
qed

text \<open>
  A body that is the JSON value \<^verbatim>\<open>null\<close> ends the same way: \<^verbatim>\<open>field not in data\<close> raises
  \<^verbatim>\<open>TypeError\<close> on \<^verbatim>\<open>None\<close>. This is also what a Flask older than 2.1 makes of a request
  whose content type is not a JSON one, where \<^verbatim>\<open>get_json()\<close> returns \<^verbatim>\<open>None\<close> and does not
  raise.
\<close>

lemma null_body_response:
  "get_json (req e) = Inr JNull \<Longrightarrow>
   submit_app e = \<lparr>resp = error_response 500 ''An unexpected error occurred'', posted = []\<rparr>"
  by (simp add: submit_app_def validate_def required_fields_def handle_exn_unexpected)

theorem unparseable_body_response_witness:
  "payload (req env_no_body) = None \<and>
   submit_app env_no_body =
     \<lparr>resp = error_response 500 ''An unexpected error occurred'', posted = []\<rparr>"
proof -
  have h: "payload (req env_no_body) = None"
    by (simp add: env_no_body_def)
  from h unparseable_body_response [OF disjI2 [OF h]] show ?thesis
    by (rule conjI)
qed

text \<open>
  C4 as the specification words it fails: a request whose body does not parse is answered with
  status 500, not 400.
\<close>

theorem unparseable_body_counterexample:
  "payload (req env_no_body) = None \<and> status (resp (submit_app env_no_body)) = 500 \<and>
   status (resp (submit_app env_no_body)) \<noteq> 400"
  by code_simp

section \<open>The provider's answers\<close>

text \<open>
  C1, as the code has it. For a submission that passes validation, when the provider
  answers 201 with a JSON object whose \<^verbatim>\<open>summary\<close> holds an \<^verbatim>\<open>outcome\<close>, the response is
  200 with the two keys \<^verbatim>\<open>outcome\<close> and \<^verbatim>\<open>evaluation_token\<close>: the token is the provider's
  when its body has one, and \<^verbatim>\<open>null\<close> when it has none. The key is always there.
\<close>

theorem provider_success_response:
  assumes "get_json (req e) = Inr data"
    and "validate (today e) data = Continue"
    and "post e data = Inr r"
    and "status_code r = 201"
    and "json_result r = Inr (JObj kvs)"
    and "map_of kvs ''summary'' = Some summary"
    and "py_getitem summary ''outcome'' = Inr outcome"
  shows "submit_app e =
     \<lparr>resp = \<lparr>status = 200,
         body = JObj [(''outcome'', outcome),
                      (''evaluation_token'',
                         case map_of kvs ''evaluation_token'' of None \<Rightarrow> JNull | Some t \<Rightarrow> t)]\<rparr>,
      posted = [data]\<rparr>"
proof -
  have "call_provider e data =
     Inr \<lparr>status = 200,
         body = JObj [(''outcome'', outcome),
                      (''evaluation_token'',
                         case map_of kvs ''evaluation_token'' of None \<Rightarrow> JNull | Some t \<Rightarrow> t)]\<rparr>"
    using assms(3-7) by (simp add: call_provider_def split: option.splits)
  then show ?thesis
    using assms(1,2) by (simp add: submit_app_continue)
qed

theorem provider_success_response_witness:
  "validate (today (env_of valid_fields (Inr approved))) (JObj valid_fields) = Continue \<and>
   submit_app (env_of valid_fields (Inr approved)) =
     \<lparr>resp = \<lparr>status = 200,
         body = JObj [(''outcome'', JStr ''Approved''), (''evaluation_token'', JStr ''abc123'')]\<rparr>,
      posted = [JObj valid_fields]\<rparr>"
proof -
  have h3: "post (env_of valid_fields (Inr approved)) (JObj valid_fields) = Inr approved"
    by (rule post_env_of)
  have h4: "status_code approved = 201"
    by (simp add: approved_def)
  have h5: "json_result approved =
      Inr (JObj [(''summary'', JObj [(''outcome'', JStr ''Approved'')]),
                 (''evaluation_token'', JStr ''abc123'')])"
    by (simp add: approved_def)
  have h6: "map_of [(''summary'', JObj [(''outcome'', JStr ''Approved'')]),
                    (''evaluation_token'', JStr ''abc123'')] ''summary'' =
      Some (JObj [(''outcome'', JStr ''Approved'')])"
    by simp
  have h7: "py_getitem (JObj [(''outcome'', JStr ''Approved'')]) ''outcome'' = Inr (JStr ''Approved'')"
    by simp
  have "submit_app (env_of valid_fields (Inr approved)) =
     \<lparr>resp = \<lparr>status = 200,
         body = JObj [(''outcome'', JStr ''Approved''), (''evaluation_token'', JStr ''abc123'')]\<rparr>,
      posted = [JObj valid_fields]\<rparr>"
    using provider_success_response [OF get_json_env_of valid_fields_pass h3 h4 h5 h6 h7]
    by simp
  with valid_fields_pass show ?thesis
    by (rule conjI)
qed

text \<open>
  C1 as the specification words it fails in its second half: when the provider's 201 body has no
  \<^verbatim>\<open>evaluation_token\<close>, the 200 response still has the key, with the value \<^verbatim>\<open>null\<close>.
\<close>

theorem provider_success_counterexample:
  "py_in ''evaluation_token'' (JObj [(''summary'', JObj [(''outcome'', JStr ''Approved'')])]) =
     Inr False \<and>
   resp (submit_app (env_of valid_fields (Inr approved_no_token))) =
     \<lparr>status = 200,
      body = JObj [(''outcome'', JStr ''Approved''), (''evaluation_token'', JNull)]\<rparr> \<and>
   py_in ''evaluation_token'' (body (resp (submit_app (env_of valid_fields (Inr approved_no_token))))) =
     Inr True"
  by code_simp

text \<open>
  C2, as the code has it. For a submission that passes validation the provider is called
  once, whatever it answers. A status other than 201 comes back as that status with
  \<^verbatim>\<open>Alloy API error\<close>; an exception that is a \<^verbatim>\<open>ConnectionError\<close> gives 503; an exception
  that is a \<^verbatim>\<open>Timeout\<close> and not a \<^verbatim>\<open>ConnectionError\<close> gives 504.
\<close>

theorem provider_failure_mapping:
  assumes "get_json (req e) = Inr data"
    and "validate (today e) data = Continue"
  shows "(\<forall>r. post e data = Inr r \<and> status_code r \<noteq> 201 \<longrightarrow>
            resp (submit_app e) = error_response (status_code r) ''Alloy API error'') \<and>
         (\<forall>x. post e data = Inl x \<and> isinstance_ConnectionError x \<longrightarrow>
            resp (submit_app e) =
              error_response 503 ''Unable to connect to verification service'') \<and>
         (\<forall>x. post e data = Inl x \<and> isinstance_Timeout x \<and> \<not> isinstance_ConnectionError x \<longrightarrow>
            resp (submit_app e) = error_response 504 ''Request timed out. Please try again.'') \<and>
         posted (submit_app e) = [data]"
proof (intro conjI allI impI)
  fix r assume "post e data = Inr r \<and> status_code r \<noteq> 201"
  then have "call_provider e data = Inr (error_response (status_code r) ''Alloy API error'')"
    by (simp add: call_provider_def)
  then show "resp (submit_app e) = error_response (status_code r) ''Alloy API error''"
    using assms by (simp add: submit_app_continue)
next
  fix x assume a: "post e data = Inl x \<and> isinstance_ConnectionError x"
  then have "call_provider e data = Inl x"
    by (simp add: call_provider_def)
  moreover from a have "handle_exn x = error_response 503 ''Unable to connect to verification service''"
    by (cases x) (simp_all add: handle_exn_def)
  ultimately show "resp (submit_app e) =
      error_response 503 ''Unable to connect to verification service''"
    using assms by (simp add: submit_app_continue)
next
  fix x assume a: "post e data = Inl x \<and> isinstance_Timeout x \<and> \<not> isinstance_ConnectionError x"
  then have "call_provider e data = Inl x"
    by (simp add: call_provider_def)
  moreover from a have "handle_exn x = error_response 504 ''Request timed out. Please try again.''"
    by (cases x) (simp_all add: handle_exn_def)
  ultimately show "resp (submit_app e) =
      error_response 504 ''Request timed out. Please try again.''"
    using assms by (simp add: submit_app_continue)
next
  show "posted (submit_app e) = [data]"
    using assms by (simp add: submit_app_continue split: sum.splits)
qed

theorem provider_failure_mapping_witness:
  "resp (submit_app (env_of valid_fields (Inr unavailable))) =
     error_response 502 ''Alloy API error'' \<and>
   posted (submit_app (env_of valid_fields (Inr unavailable))) = [JObj valid_fields] \<and>
   resp (submit_app (env_of valid_fields (Inl ConnectionError))) =
     error_response 503 ''Unable to connect to verification service'' \<and>
   posted (submit_app (env_of valid_fields (Inl ConnectionError))) = [JObj valid_fields] \<and>
   resp (submit_app (env_of valid_fields (Inl ReadTimeout))) =
     error_response 504 ''Request timed out. Please try again.'' \<and>
   posted (submit_app (env_of valid_fields (Inl ReadTimeout))) = [JObj valid_fields]"
proof -
  have s: "status_code unavailable = 502"
    by (simp add: unavailable_def)
  show ?thesis
    using provider_failure_mapping
        [OF get_json_env_of valid_fields_pass, of "Inr unavailable"]
      provider_failure_mapping
        [OF get_json_env_of valid_fields_pass, of "Inl ConnectionError"]
      provider_failure_mapping
        [OF get_json_env_of valid_fields_pass, of "Inl ReadTimeout"]
    by (simp add: post_env_of s)
qed

text \<open>
  C2 as the specification words it fails for a timeout while connecting:
  \<^verbatim>\<open>requests.exceptions.ConnectTimeout\<close> is a \<^verbatim>\<open>Timeout\<close> and a \<^verbatim>\<open>ConnectionError\<close>, the
  clause for \<^verbatim>\<open>ConnectionError\<close> comes first, and the response is 503, not 504.
\<close>

theorem provider_timeout_counterexample:
  "isinstance_Timeout ConnectTimeout \<and>
   resp (submit_app (env_of valid_fields (Inl ConnectTimeout))) =
     error_response 503 ''Unable to connect to verification service'' \<and>
   resp (submit_app (env_of valid_fields (Inl ConnectTimeout))) \<noteq>
     error_response 504 ''Request timed out. Please try again.''"
  by code_simp

text \<open>
  C10. For a submission that passes validation, when the provider answers 201 with a
  JSON value that has no \<^verbatim>\<open>outcome\<close> under \<^verbatim>\<open>summary\<close> (no \<^verbatim>\<open>summary\<close> key, a \<^verbatim>\<open>summary\<close>
  without \<^verbatim>\<open>outcome\<close>, a \<^verbatim>\<open>summary\<close> that is no object, or a body that is no object), the
  subscript raises \<^verbatim>\<open>KeyError\<close> or \<^verbatim>\<open>TypeError\<close> and the response is 500 with
  \<^verbatim>\<open>An unexpected error occurred\<close>.
\<close>

theorem missing_outcome_response:
  assumes "get_json (req e) = Inr data"
    and "validate (today e) data = Continue"
    and "post e data = Inr r"
    and "status_code r = 201"
    and "json_result r = Inr alloy_response"
    and "\<not> (\<exists>summary outcome. py_getitem alloy_response ''summary'' = Inr summary \<and>
            py_getitem summary ''outcome'' = Inr outcome)"
  shows "submit_app e =
     \<lparr>resp = error_response 500 ''An unexpected error occurred'', posted = [data]\<rparr>"
proof -
  have "\<exists>x. (x = TypeError \<or> x = KeyError) \<and> call_provider e data = Inl x"
  proof (cases "py_getitem alloy_response ''summary''")
    case (Inl x)
    then show ?thesis
      using assms(3-5) py_getitem_Inl[OF Inl] by (auto simp: call_provider_def)
  next
    case (Inr summary)
    with assms(6) obtain x where x: "py_getitem summary ''outcome'' = Inl x"
      by (cases "py_getitem summary ''outcome''") auto
    then show ?thesis
      using assms(3-5) Inr py_getitem_Inl[OF x] by (auto simp: call_provider_def)
  qed
  then obtain x where "x = TypeError \<or> x = KeyError" and "call_provider e data = Inl x"
    by blast
  then show ?thesis
    using assms(1,2) by (auto simp: submit_app_continue handle_exn_unexpected)
qed

theorem missing_outcome_response_witness:
  "json_result no_summary = Inr (JObj [(''evaluation_token'', JStr ''abc123'')]) \<and>
   submit_app (env_of valid_fields (Inr no_summary)) =
     \<lparr>resp = error_response 500 ''An unexpected error occurred'',
      posted = [JObj valid_fields]\<rparr>"
proof -
  have h3: "post (env_of valid_fields (Inr no_summary)) (JObj valid_fields) = Inr no_summary"
    by (rule post_env_of)
  have h4: "status_code no_summary = 201"
    by (simp add: no_summary_def)
  have h5: "json_result no_summary = Inr (JObj [(''evaluation_token'', JStr ''abc123'')])"
    by (simp add: no_summary_def)
  have h6: "\<not> (\<exists>summary outcome.
      py_getitem (JObj [(''evaluation_token'', JStr ''abc123'')]) ''summary'' = Inr summary \<and>
      py_getitem summary ''outcome'' = Inr outcome)"
    by simp
  from h5 missing_outcome_response [OF get_json_env_of valid_fields_pass h3 h4 h5 h6]
  show ?thesis
    by (rule conjI)
qed

section \<open>The order of the checks\<close>

text \<open>
  C5, as the code has it. The checks run in the order presence, email, phone, birth date
  (\<^verbatim>\<open>strptime\<close>, then age), postal code, SSN, birth date against \<^verbatim>\<open>^\d{4}-\d{2}-\d{2}$\<close>,
  state, country. When the checks before the \<open>k\<close>-th all pass, the response is the one of
  the \<open>k\<close>-th check alone, whether it rejects or raises, and nothing is sent to the
  provider.
\<close>

theorem validation_order:
  assumes "get_json (req e) = Inr data"
    and "k < length (validation_steps (today e) data)"
    and "\<forall>j<k. validation_steps (today e) data ! j = Continue"
  shows "(\<forall>r. validation_steps (today e) data ! k = Returned r \<longrightarrow>
            submit_app e = \<lparr>resp = r, posted = []\<rparr>) \<and>
         (\<forall>x. validation_steps (today e) data ! k = Raised x \<longrightarrow>
            submit_app e = \<lparr>resp = handle_exn x, posted = []\<rparr>)"
proof (intro conjI allI impI)
  fix r assume r: "validation_steps (today e) data ! k = Returned r"
  then have "validate (today e) data = Returned r"
    using first_stop_nth [OF assms(2,3)] by (simp add: validate_steps)
  with assms(1) show "submit_app e = \<lparr>resp = r, posted = []\<rparr>"
    by (rule submit_app_returned)
next
  fix x assume x: "validation_steps (today e) data ! k = Raised x"
  then have "validate (today e) data = Raised x"
    using first_stop_nth [OF assms(2,3)] by (simp add: validate_steps)
  with assms(1) show "submit_app e = \<lparr>resp = handle_exn x, posted = []\<rparr>"
    by (rule submit_app_raised)
qed

theorem validation_order_witness:
  "validation_steps a_day (JObj (with_field ''birth_date'' ''2000-1-5'' valid_fields)) =
     [Continue, Continue, Continue, Continue, Continue, Continue,
      Returned (error_response 400 ''Date of Birth must be in YYYY-MM-DD format''),
      Continue, Continue] \<and>
   submit_app (env_of (with_field ''birth_date'' ''2000-1-5'' valid_fields) (Inr approved)) =
     \<lparr>resp = error_response 400 ''Date of Birth must be in YYYY-MM-DD format'', posted = []\<rparr>"
proof -
  let ?d = "JObj (with_field ''birth_date'' ''2000-1-5'' valid_fields)"
  let ?e = "env_of (with_field ''birth_date'' ''2000-1-5'' valid_fields) (Inr approved)"
  have st: "validation_steps a_day ?d =
      [Continue, Continue, Continue, Continue, Continue, Continue,
       Returned (error_response 400 ''Date of Birth must be in YYYY-MM-DD format''),
       Continue, Continue]"
    by code_simp
  have h2: "6 < length (validation_steps (today ?e) ?d)"
    by (simp add: st today_env_of)
  have h3: "\<forall>j<6. validation_steps (today ?e) ?d ! j = Continue"
    by (simp add: st today_env_of nth_Cons' All_less_Suc eval_nat_numeral)
  have h4: "validation_steps (today ?e) ?d ! 6 =
      Returned (error_response 400 ''Date of Birth must be in YYYY-MM-DD format'')"
    by (simp add: st today_env_of)
  have "submit_app ?e =
     \<lparr>resp = error_response 400 ''Date of Birth must be in YYYY-MM-DD format'', posted = []\<rparr>"
    using validation_order [OF get_json_env_of h2 h3] h4 by blast
  with st show ?thesis
    by (rule conjI)
qed

text \<open>
  C5 as the specification words it fails. The birth date \<^verbatim>\<open>2000-1-5\<close> is rejected for its format
  when nothing else is wrong, and yet the same submission with a dashed SSN is rejected
  for the SSN: the format of the birth date is checked after the postal code and the SSN,
  not before them.
\<close>

theorem validation_order_counterexample:
  "submit_app (env_of (with_field ''birth_date'' ''2000-1-5'' valid_fields) (Inr approved)) =
     \<lparr>resp = error_response 400 ''Date of Birth must be in YYYY-MM-DD format'', posted = []\<rparr> \<and>
   submit_app (env_of (with_field ''document_ssn'' ''123-45-6789''
       (with_field ''birth_date'' ''2000-1-5'' valid_fields)) (Inr approved)) =
     \<lparr>resp = error_response 400 ''SSN must be exactly 9 digits with no dashes'', posted = []\<rparr>"
  by code_simp

section \<open>Birth date and age\<close>




section \<open>Phone number\<close>

lemma check_phone_string:
  "py_getitem data ''phone_number'' = Inr (JStr s) \<Longrightarrow>
   check_phone data =
     (if length (filter is_digit s) \<noteq> 10
      then Returned (error_response 400 ''Phone number must be 10 digits'') else Continue)"
  by (simp add: check_phone_def field_fails_found phone_ok_def reject_if_def)

text \<open>
  C8. For a submission that passes the presence and email checks and whose
  \<^verbatim>\<open>phone_number\<close> is a string, the response is 400 with \<^verbatim>\<open>Phone number must be 10 digits\<close>
  exactly when the digits of the string are not ten in number. In particular
  \<^verbatim>\<open>(555) 123-4567\<close> passes and \<^verbatim>\<open>555-123\<close> is rejected, as the instance after the
  theorem shows.
\<close>

theorem phone_check:
  assumes "get_json (req e) = Inr data"
    and "presence_loop required_fields data = Continue"
    and "check_email data = Continue"
    and "py_getitem data ''phone_number'' = Inr (JStr s)"
  shows "(resp (submit_app e) = error_response 400 ''Phone number must be 10 digits'') =
         (length (filter is_digit s) \<noteq> 10)"
proof
  assume "resp (submit_app e) = error_response 400 ''Phone number must be 10 digits''"
  with assms(1) have "validate (today e) data =
      Returned (error_response 400 ''Phone number must be 10 digits'')"
    by (intro resp_400_from_validation) simp_all
  from returned_step [OF this assms(2)]
  have "check_phone data = Returned (error_response 400 ''Phone number must be 10 digits'')"
    by (simp add: msg_country_def)
  then show "length (filter is_digit s) \<noteq> 10"
    by (simp add: check_phone_string [OF assms(4)] split: if_splits)
next
  assume "length (filter is_digit s) \<noteq> 10"
  then have "check_phone data = Returned (error_response 400 ''Phone number must be 10 digits'')"
    by (simp add: check_phone_string [OF assms(4)])
  with assms(2,3) have "validate (today e) data =
      Returned (error_response 400 ''Phone number must be 10 digits'')"
    by (simp add: validate_def)
  with assms(1) show "resp (submit_app e) = error_response 400 ''Phone number must be 10 digits''"
    by (simp add: submit_app_returned)
qed


theorem phone_check_witness:
  "length (filter is_digit ''(555) 123-4567'') = 10 \<and>
   resp (submit_app (env_of (with_field ''phone_number'' ''(555) 123-4567'' valid_fields)
       (Inr approved))) \<noteq> error_response 400 ''Phone number must be 10 digits'' \<and>
   length (filter is_digit ''555-123'') \<noteq> 10 \<and>
   resp (submit_app (env_of (with_field ''phone_number'' ''555-123'' valid_fields)
       (Inr approved))) = error_response 400 ''Phone number must be 10 digits''"
proof -
  let ?d1 = "JObj (with_field ''phone_number'' ''(555) 123-4567'' valid_fields)"
  let ?d2 = "JObj (with_field ''phone_number'' ''555-123'' valid_fields)"
  have p1: "presence_loop required_fields ?d1 = Continue"
    and e1: "check_email ?d1 = Continue"
    and b1: "py_getitem ?d1 ''phone_number'' = Inr (JStr ''(555) 123-4567'')"
    by code_simp+
  have p2: "presence_loop required_fields ?d2 = Continue"
    and e2: "check_email ?d2 = Continue"
    and b2: "py_getitem ?d2 ''phone_number'' = Inr (JStr ''555-123'')"
    by code_simp+
  have n1: "length (filter is_digit ''(555) 123-4567'') = 10"
    and n2: "length (filter is_digit ''555-123'') \<noteq> 10"
    by code_simp+
  from phone_check [OF get_json_env_of p1 e1 b1, of "Inr approved"] n1
  have c1: "resp (submit_app (env_of (with_field ''phone_number'' ''(555) 123-4567'' valid_fields)
       (Inr approved))) \<noteq> error_response 400 ''Phone number must be 10 digits''"
    by simp
  from phone_check [OF get_json_env_of p2 e2 b2, of "Inr approved"] n2
  have c2: "resp (submit_app (env_of (with_field ''phone_number'' ''555-123'' valid_fields)
       (Inr approved))) = error_response 400 ''Phone number must be 10 digits''"
    by simp
  from n1 c1 n2 c2 show ?thesis
    by blast
qed

section \<open>Social security number\<close>

lemma fullmatch_replicate_One:
  "fullmatch (replicate n (One p)) s = (length s = n \<and> list_all p s)"
proof (induction n arbitrary: s)
  case 0
  then show ?case by auto
next
  case (Suc n)
  then show ?case by (cases s) auto
qed

lemma ssn_pattern_matches:
  "anchored_match ssn_pattern s =
     ((length s = 9 \<and> list_all is_digit s) \<or>
      (\<exists>t. s = t @ [CHR 0x0A] \<and> length t = 9 \<and> list_all is_digit t))"
proof -
  have "(s \<noteq> [] \<and> last s = CHR 0x0A \<and> length (butlast s) = 9 \<and> list_all is_digit (butlast s)) =
      (\<exists>t. s = t @ [CHR 0x0A] \<and> length t = 9 \<and> list_all is_digit t)"
  proof
    assume a: "s \<noteq> [] \<and> last s = CHR 0x0A \<and> length (butlast s) = 9 \<and> list_all is_digit (butlast s)"
    then have "s = butlast s @ [CHR 0x0A]"
      by (metis append_butlast_last_id)
    with a show "\<exists>t. s = t @ [CHR 0x0A] \<and> length t = 9 \<and> list_all is_digit t"
      by blast
  next
    assume "\<exists>t. s = t @ [CHR 0x0A] \<and> length t = 9 \<and> list_all is_digit t"
    then show "s \<noteq> [] \<and> last s = CHR 0x0A \<and> length (butlast s) = 9 \<and>
        list_all is_digit (butlast s)"
      by auto
  qed
  then show ?thesis
    unfolding anchored_match_def ssn_pattern_def fullmatch_replicate_One by simp
qed

lemma check_ssn_string:
  "py_getitem data ''document_ssn'' = Inr (JStr s) \<Longrightarrow>
   check_ssn data =
     (if anchored_match ssn_pattern s then Continue
      else Returned (error_response 400 ''SSN must be exactly 9 digits with no dashes''))"
  by (simp add: check_ssn_def field_fails_found reject_if_def)

lemma nine_digits_pass:
  "py_getitem data ''document_ssn'' = Inr (JStr s) \<Longrightarrow> length s = 9 \<Longrightarrow> list_all is_digit s \<Longrightarrow>
   check_ssn data = Continue"
  by (simp add: check_ssn_string ssn_pattern_matches)

lemma ssn_rejected:
  assumes "get_json (req e) = Inr data"
    and "\<forall>j<5. validation_steps (today e) data ! j = Continue"
    and "py_getitem data ''document_ssn'' = Inr (JStr s)"
    and "\<not> anchored_match ssn_pattern s"
  shows "submit_app e =
     \<lparr>resp = error_response 400 ''SSN must be exactly 9 digits with no dashes'', posted = []\<rparr>"
proof -
  have "validation_steps (today e) data ! 5 =
      Returned (error_response 400 ''SSN must be exactly 9 digits with no dashes'')"
    using assms(3,4) by (simp add: validation_steps_def check_ssn_string)
  moreover have "5 < length (validation_steps (today e) data)"
    by (simp add: validation_steps_def)
  ultimately have "validate (today e) data =
      Returned (error_response 400 ''SSN must be exactly 9 digits with no dashes'')"
    using first_stop_nth [OF _ assms(2)] by (simp add: validate_steps)
  with assms(1) show ?thesis
    by (rule submit_app_returned)
qed

text \<open>
  C7 at the input where the code and the specification part. The SSN is nine digits followed by
  a newline, so it is not exactly nine digits; \<^verbatim>\<open>$\<close> matches before the final newline,
  the check passes, and the submission goes to the provider.
\<close>

theorem ssn_trailing_newline_accepted:
  "\<not> (length ssn_newline = 9 \<and> list_all is_digit ssn_newline) \<and>
   validate a_day (JObj (with_field ''document_ssn'' ssn_newline valid_fields)) = Continue \<and>
   submit_app (env_of (with_field ''document_ssn'' ssn_newline valid_fields) (Inr approved)) =
     \<lparr>resp = \<lparr>status = 200,
         body = JObj [(''outcome'', JStr ''Approved''), (''evaluation_token'', JStr ''abc123'')]\<rparr>,
      posted = [JObj (with_field ''document_ssn'' ssn_newline valid_fields)]\<rparr>"
  by code_simp

end
